theory Spec2Isabelle
  imports Main
begin

section \<open>Ken-Do: the main-process application object (class KenDoApp)\<close>

text \<open>
  The development embeds the class \<^verbatim>\<open>KenDoApp\<close>: the handlers it registers in
  \<^verbatim>\<open>initRenderer\<close>, the callback of the hide timer, and \<^verbatim>\<open>showMenu\<close> with the two
  callbacks it attaches to \<^verbatim>\<open>Promise.all\<close>. The application is single-threaded and
  event-driven, so every handler is a function from the state before the handler to the
  state after it, and the event loop is a step function over the events the runtime
  delivers: the shortcut, the settling of a backend query, the expiry of a timer and the
  messages of the renderer. Every call the handlers make on the window, the backend, the
  console and the timer API is appended to a trace, in program order.

  The state is the one after \<^verbatim>\<open>init()\<close> has completed: the window exists and the handlers
  are registered.
\<close>

subsection \<open>Values\<close>

text \<open>
  Modelled from the spec: the module \<^verbatim>\<open>./backend\<close> with the interface \<^verbatim>\<open>Backend\<close> is not
  among the sources; the result types of \<^verbatim>\<open>getPointer\<close> and \<^verbatim>\<open>getFocusedWindow\<close> follow
  the data model of the specification (a coordinate pair; a snapshot with the window
  class and possibly more metadata, which the record's extension slot stands for).
\<close>

datatype pointer = Pointer (px: int) (py: int)

record focused_window =
  wmClass :: string

text \<open>The values that travel over the IPC channel to the renderer.\<close>

datatype jsvalue =
    JNull
  | JNum int
  | JStr string
  | JObj "(string \<times> jsvalue) list"

text \<open>The pointer object \<^verbatim>\<open>{x, y}\<close> as it is handed to \<^verbatim>\<open>webContents.send\<close>.\<close>

definition pointer_js :: "pointer \<Rightarrow> jsvalue" where
  "pointer_js p = JObj [(''x'', JNum (px p)), (''y'', JNum (py p))]"

subsection \<open>Calls on the outside world\<close>

datatype effect =
    GetFocusedWindow
  | GetPointer
  | SimulateShortcut string
  | SetFocusable bool
  | SetIgnoreMouseEvents bool
  | WindowShow
  | WindowHide
  | Send string jsvalue
  | OpenDevTools
  | SetTimeout nat nat
  | ClearTimeout nat
  | ConsoleLog string
  | ConsoleError string

subsection \<open>State\<close>

text \<open>
  One outstanding \<^verbatim>\<open>Promise.all([getFocusedWindow(), getPointer()])\<close>: for each of the two
  queries, \<open>None\<close> while it is pending, and its outcome once it has settled (\<open>Inl\<close> the
  rejection reason as the string that \<^verbatim>\<open>'...' + err\<close> produces, \<open>Inr\<close> the value).
\<close>

record invocation =
  windowResult :: "(string + focused_window) option"
  pointerResult :: "(string + pointer) option"

text \<open>
  The fields of \<^verbatim>\<open>KenDoApp\<close> and what the runtime keeps for it. \<open>visible\<close>, \<open>focusable\<close>
  and \<open>ignoreMouseEvents\<close> are the attributes of \<^verbatim>\<open>this.window\<close>; \<open>hideTimeout\<close> is the
  field of that name (\<open>None\<close> for \<^verbatim>\<open>null\<close>, \<open>Some h\<close> for the handle \<open>h\<close> returned by
  \<^verbatim>\<open>setTimeout\<close>); \<open>timers\<close> is the runtime's table of armed timers, each with its handle
  and the delay in milliseconds the runtime arms it with; \<open>invocations\<close> holds the promises created by the calls
  of \<^verbatim>\<open>showMenu\<close>, indexed by the order of the calls.
\<close>

record ken_do_app =
  visible :: bool
  focusable :: bool
  ignoreMouseEvents :: bool
  hideTimeout :: "nat option"
  timers :: "(nat \<times> nat) list"
  nextTimer :: nat
  invocations :: "invocation list"
  trace :: "effect list"

text \<open>
  The state after \<^verbatim>\<open>init()\<close>: \<^verbatim>\<open>initWindow\<close> creates the window with \<^verbatim>\<open>show: false\<close> and
  sets neither \<^verbatim>\<open>focusable\<close> nor the mouse handling, so the window is focusable and
  receives mouse events; \<^verbatim>\<open>hideTimeout\<close> is initialised to \<^verbatim>\<open>null\<close>.
\<close>

definition init_state :: ken_do_app where
  "init_state = \<lparr> visible = False, focusable = True, ignoreMouseEvents = False,
     hideTimeout = None, timers = [], nextTimer = 0, invocations = [], trace = [] \<rparr>"

subsection \<open>The window, the timer API and the console\<close>

definition emit :: "effect \<Rightarrow> ken_do_app \<Rightarrow> ken_do_app" where
  "emit e s = s\<lparr> trace := trace s @ [e] \<rparr>"

definition setFocusable :: "bool \<Rightarrow> ken_do_app \<Rightarrow> ken_do_app" where
  "setFocusable b s = emit (SetFocusable b) (s\<lparr> focusable := b \<rparr>)"

definition setIgnoreMouseEvents :: "bool \<Rightarrow> ken_do_app \<Rightarrow> ken_do_app" where
  "setIgnoreMouseEvents b s = emit (SetIgnoreMouseEvents b) (s\<lparr> ignoreMouseEvents := b \<rparr>)"

definition window_show :: "ken_do_app \<Rightarrow> ken_do_app" where
  "window_show s = emit WindowShow (s\<lparr> visible := True \<rparr>)"

definition window_hide :: "ken_do_app \<Rightarrow> ken_do_app" where
  "window_hide s = emit WindowHide (s\<lparr> visible := False \<rparr>)"

text \<open>
  The timers are those of Node, the runtime of the main process. It arms a timer with
  the requested delay when that lies between 1 and \<open>TIMEOUT_MAX\<close> = 2147483647
  milliseconds, and with 1 millisecond otherwise.
\<close>

definition TIMEOUT_MAX :: nat where
  "TIMEOUT_MAX = 2147483647"

definition timer_delay :: "nat \<Rightarrow> nat" where
  "timer_delay delay = (if 1 \<le> delay \<and> delay \<le> TIMEOUT_MAX then delay else 1)"

text \<open>\<^verbatim>\<open>setTimeout\<close> arms a timer under a fresh handle and returns the handle. The trace
  records the call with the delay as requested, the table the delay the timer runs
  with.\<close>

definition setTimeout :: "nat \<Rightarrow> ken_do_app \<Rightarrow> nat \<times> ken_do_app" where
  "setTimeout delay s =
     (nextTimer s,
      emit (SetTimeout (nextTimer s) delay)
        (s\<lparr> timers := timers s @ [(nextTimer s, timer_delay delay)],
           nextTimer := Suc (nextTimer s) \<rparr>))"

text \<open>\<^verbatim>\<open>clearTimeout\<close> disarms the timer of a handle; on a handle that is no longer armed
  it changes nothing.\<close>

definition clearTimeout :: "nat \<Rightarrow> ken_do_app \<Rightarrow> ken_do_app" where
  "clearTimeout h s =
     emit (ClearTimeout h) (s\<lparr> timers := filter (\<lambda>t. fst t \<noteq> h) (timers s) \<rparr>)"

definition armed :: "nat \<Rightarrow> ken_do_app \<Rightarrow> bool" where
  "armed h s = (h \<in> set (map fst (timers s)))"

subsection \<open>The handlers of initRenderer\<close>

text \<open>\<^verbatim>\<open>ipcMain.on('show-dev-tools', ...)\<close>\<close>

definition ipc_show_dev_tools :: "ken_do_app \<Rightarrow> ken_do_app" where
  "ipc_show_dev_tools s = emit OpenDevTools s"

text \<open>The callback handed to \<^verbatim>\<open>setTimeout\<close> in the handler of \<^verbatim>\<open>'hide-window'\<close>.\<close>

definition hide_timer_callback :: "ken_do_app \<Rightarrow> ken_do_app" where
  "hide_timer_callback s = (window_hide s)\<lparr> hideTimeout := None \<rparr>"

text \<open>\<^verbatim>\<open>ipcMain.on('hide-window', (event, delay) => ...)\<close>\<close>

definition ipc_hide_window :: "nat \<Rightarrow> ken_do_app \<Rightarrow> ken_do_app" where
  "ipc_hide_window delay s =
     (let s1 = setFocusable False s;
          s2 = setIgnoreMouseEvents True s1;
          (h, s3) = setTimeout delay s2
      in s3\<lparr> hideTimeout := Some h \<rparr>)"

text \<open>\<^verbatim>\<open>ipcMain.on('item-selected', ...)\<close> and \<^verbatim>\<open>ipcMain.on('log', (event, message) => ...)\<close>\<close>

definition ipc_item_selected :: "ken_do_app \<Rightarrow> ken_do_app" where
  "ipc_item_selected s = emit (ConsoleLog ''Red circle was clicked!'') s"

definition ipc_log :: "string \<Rightarrow> ken_do_app \<Rightarrow> ken_do_app" where
  "ipc_log message s = emit (ConsoleLog message) s"

text \<open>
  \<^verbatim>\<open>ipcMain.on('simulate-shortcut', () => ...)\<close>: the listener declares no parameter, so
  whatever the renderer sends with the message is not read; \<open>platform\<close> is the value of
  \<^verbatim>\<open>os.platform()\<close>.
\<close>

definition ipc_simulate_shortcut :: "string \<Rightarrow> ken_do_app \<Rightarrow> ken_do_app" where
  "ipc_simulate_shortcut platform s =
     (let s1 = window_hide s
      in if platform = ''win32'' then emit (SimulateShortcut ''Ctrl+Alt+Tab'') s1
         else emit (SimulateShortcut ''Ctrl+Alt+Right'') s1)"

subsection \<open>showMenu\<close>

text \<open>The synchronous part: both queries are issued, and the promise joining them is
  created with both results pending.\<close>

definition showMenu :: "ken_do_app \<Rightarrow> ken_do_app" where
  "showMenu s =
     (let s1 = emit GetFocusedWindow s;
          s2 = emit GetPointer s1
      in s2\<lparr> invocations := invocations s2 @ [\<lparr> windowResult = None, pointerResult = None \<rparr>] \<rparr>)"

text \<open>
  The callback of \<^verbatim>\<open>.then\<close>, run with the two values once both queries have resolved.
  With the window created and results of the declared types none of its statements
  throws, so the handler chained behind it with \<^verbatim>\<open>.catch\<close> runs for a rejected query
  only.
\<close>

definition showMenu_then :: "focused_window \<Rightarrow> pointer \<Rightarrow> ken_do_app \<Rightarrow> ken_do_app" where
  "showMenu_then window pointer s =
     (let s1 = (case hideTimeout s of Some h \<Rightarrow> clearTimeout h s | None \<Rightarrow> s);
          s2 = emit (ConsoleLog (''Currently focused window: '' @ wmClass window)) s1;
          s3 = emit (Send ''show-menu'' (pointer_js pointer)) s2;
          s4 = setFocusable True s3;
          s5 = setIgnoreMouseEvents False s4
      in window_show s5)"

text \<open>The callback of \<^verbatim>\<open>.catch\<close>, run with the reason of the first rejection.\<close>

definition showMenu_catch :: "string \<Rightarrow> ken_do_app \<Rightarrow> ken_do_app" where
  "showMenu_catch err s = emit (ConsoleError (''Failed to show menu: '' @ err)) s"

text \<open>
  \<^verbatim>\<open>Promise.all\<close> over the two queries of invocation \<open>i\<close>. A query settles once. The joined
  promise is rejected by the first rejection and fulfilled when both values are there;
  it settles once as well, so a query that settles after a rejection of the other runs
  no callback.
\<close>

definition settle_window :: "nat \<Rightarrow> string + focused_window \<Rightarrow> ken_do_app \<Rightarrow> ken_do_app" where
  "settle_window i r s =
     (if i < length (invocations s) then
        (let inv = invocations s ! i in
         case windowResult inv of
           Some _ \<Rightarrow> s
         | None \<Rightarrow>
             (let s' = s\<lparr> invocations := (invocations s)[i := inv\<lparr> windowResult := Some r \<rparr>] \<rparr> in
              case pointerResult inv of
                Some (Inl _) \<Rightarrow> s'
              | Some (Inr p) \<Rightarrow>
                  (case r of Inl e \<Rightarrow> showMenu_catch e s' | Inr w \<Rightarrow> showMenu_then w p s')
              | None \<Rightarrow>
                  (case r of Inl e \<Rightarrow> showMenu_catch e s' | Inr w \<Rightarrow> s')))
      else s)"

definition settle_pointer :: "nat \<Rightarrow> string + pointer \<Rightarrow> ken_do_app \<Rightarrow> ken_do_app" where
  "settle_pointer i r s =
     (if i < length (invocations s) then
        (let inv = invocations s ! i in
         case pointerResult inv of
           Some _ \<Rightarrow> s
         | None \<Rightarrow>
             (let s' = s\<lparr> invocations := (invocations s)[i := inv\<lparr> pointerResult := Some r \<rparr>] \<rparr> in
              case windowResult inv of
                Some (Inl _) \<Rightarrow> s'
              | Some (Inr w) \<Rightarrow>
                  (case r of Inl e \<Rightarrow> showMenu_catch e s' | Inr p \<Rightarrow> showMenu_then w p s')
              | None \<Rightarrow>
                  (case r of Inl e \<Rightarrow> showMenu_catch e s' | Inr p \<Rightarrow> s')))
      else s)"

subsection \<open>The event loop\<close>

text \<open>The runtime fires an armed timer once and forgets it; a handle that is not armed
  never fires.\<close>

definition timer_expired :: "nat \<Rightarrow> ken_do_app \<Rightarrow> ken_do_app" where
  "timer_expired h s =
     (if armed h s
      then hide_timer_callback (s\<lparr> timers := filter (\<lambda>t. fst t \<noteq> h) (timers s) \<rparr>)
      else s)"

datatype event =
    ShortcutPressed
  | WindowQuerySettled nat "string + focused_window"
  | PointerQuerySettled nat "string + pointer"
  | TimerExpired nat
  | IpcShowDevTools
  | IpcHideWindow nat
  | IpcItemSelected
  | IpcLog string
  | IpcSimulateShortcut string

fun step :: "string \<Rightarrow> event \<Rightarrow> ken_do_app \<Rightarrow> ken_do_app" where
  "step platform ShortcutPressed s = showMenu s"
| "step platform (WindowQuerySettled i r) s = settle_window i r s"
| "step platform (PointerQuerySettled i r) s = settle_pointer i r s"
| "step platform (TimerExpired h) s = timer_expired h s"
| "step platform IpcShowDevTools s = ipc_show_dev_tools s"
| "step platform (IpcHideWindow delay) s = ipc_hide_window delay s"
| "step platform IpcItemSelected s = ipc_item_selected s"
| "step platform (IpcLog message) s = ipc_log message s"
| "step platform (IpcSimulateShortcut targetCombo) s = ipc_simulate_shortcut platform s"

fun run :: "string \<Rightarrow> event list \<Rightarrow> ken_do_app \<Rightarrow> ken_do_app" where
  "run platform [] s = s"
| "run platform (e # es) s = run platform es (step platform e s)"

subsection \<open>The states of the overlay and what was sent to the renderer\<close>

definition is_hidden :: "ken_do_app \<Rightarrow> bool" where
  "is_hidden s = (\<not> visible s)"

definition is_visible_interactive :: "ken_do_app \<Rightarrow> bool" where
  "is_visible_interactive s = (visible s \<and> focusable s \<and> \<not> ignoreMouseEvents s)"

definition is_visible_pending_hide :: "ken_do_app \<Rightarrow> bool" where
  "is_visible_pending_hide s = (visible s \<and> \<not> focusable s \<and> ignoreMouseEvents s)"

fun sent :: "effect list \<Rightarrow> (string \<times> jsvalue) list" where
  "sent [] = []"
| "sent (Send channel payload # es) = (channel, payload) # sent es"
| "sent (e # es) = sent es"

text \<open>
  The invariant the specification states for the hide timer, in its words: the handle
  is non-null exactly in the state \<open>Visible-PendingHide\<close>.
\<close>

definition spec_timer_iff_pending_hide :: "ken_do_app \<Rightarrow> bool" where
  "spec_timer_iff_pending_hide s = ((hideTimeout s \<noteq> None) = is_visible_pending_hide s)"

text \<open>A hide is in flight under the handle: the field holds a handle and the timer of
  that handle is armed.\<close>

definition hide_pending :: "ken_do_app \<Rightarrow> bool" where
  "hide_pending s = (case hideTimeout s of None \<Rightarrow> False | Some h \<Rightarrow> armed h s)"

section \<open>Basic facts\<close>

lemmas app_defs = emit_def setFocusable_def setIgnoreMouseEvents_def window_show_def
  window_hide_def TIMEOUT_MAX_def timer_delay_def setTimeout_def clearTimeout_def armed_def
  ipc_show_dev_tools_def
  hide_timer_callback_def ipc_hide_window_def ipc_item_selected_def ipc_log_def
  ipc_simulate_shortcut_def showMenu_def showMenu_then_def showMenu_catch_def
  settle_window_def settle_pointer_def timer_expired_def pointer_js_def

lemmas state_defs = is_hidden_def is_visible_interactive_def is_visible_pending_hide_def


lemma run_append: "run platform (es @ fs) s = run platform fs (run platform es s)"
  by (induction es arbitrary: s) simp_all

text \<open>Every handler keeps \<open>ignoreMouseEvents\<close> the negation of \<open>focusable\<close>.\<close>

lemma step_lockstep:
  "ignoreMouseEvents s = (\<not> focusable s) \<Longrightarrow>
   ignoreMouseEvents (step platform e s) = (\<not> focusable (step platform e s))"
  by (cases e) (auto simp: app_defs Let_def split: option.splits sum.splits)

lemma run_lockstep:
  "ignoreMouseEvents s = (\<not> focusable s) \<Longrightarrow>
   ignoreMouseEvents (run platform es s) = (\<not> focusable (run platform es s))"
proof (induction es arbitrary: s)
  case Nil
  then show ?case by simp
next
  case (Cons e es)
  from Cons.prems
  have "ignoreMouseEvents (step platform e s) = (\<not> focusable (step platform e s))"
    by (rule step_lockstep)
  then show ?case using Cons.IH by simp
qed

text \<open>A handler that changes \<open>focusable\<close> sets both attributes, to opposite values,
  from whatever state it starts.\<close>

lemma step_sets_pair:
  "focusable (step platform e s) \<noteq> focusable s \<longrightarrow>
   ignoreMouseEvents (step platform e s) = (\<not> focusable (step platform e s))"
  by (cases e) (auto simp: app_defs Let_def split: option.splits sum.splits)

text \<open>A shown, unfocusable window has its hide timer armed under the handle.\<close>

lemma step_pending_armed:
  "(visible s \<and> \<not> focusable s \<longrightarrow> (\<exists>h. hideTimeout s = Some h \<and> armed h s)) \<Longrightarrow>
   (visible (step platform e s) \<and> \<not> focusable (step platform e s) \<longrightarrow>
      (\<exists>h. hideTimeout (step platform e s) = Some h \<and> armed h (step platform e s)))"
  by (cases e) (auto simp: app_defs Let_def split: option.splits sum.splits)

lemma run_pending_armed:
  "(visible s \<and> \<not> focusable s \<longrightarrow> (\<exists>h. hideTimeout s = Some h \<and> armed h s)) \<Longrightarrow>
   (visible (run platform es s) \<and> \<not> focusable (run platform es s) \<longrightarrow>
      (\<exists>h. hideTimeout (run platform es s) = Some h \<and> armed h (run platform es s)))"
proof (induction es arbitrary: s)
  case Nil
  then show ?case by simp
next
  case (Cons e es)
  show ?case
    using Cons.IH [OF step_pending_armed [OF Cons.prems, of platform e]] by simp
qed

text \<open>While the window is focusable, no timer is armed under the handle.\<close>

lemma step_focusable_stale:
  "(focusable s \<longrightarrow> (\<forall>h. hideTimeout s = Some h \<longrightarrow> \<not> armed h s)) \<Longrightarrow>
   (focusable (step platform e s) \<longrightarrow>
      (\<forall>h. hideTimeout (step platform e s) = Some h \<longrightarrow> \<not> armed h (step platform e s)))"
  by (cases e) (auto simp: app_defs Let_def split: option.splits sum.splits)

lemma run_focusable_stale:
  "(focusable s \<longrightarrow> (\<forall>h. hideTimeout s = Some h \<longrightarrow> \<not> armed h s)) \<Longrightarrow>
   (focusable (run platform es s) \<longrightarrow>
      (\<forall>h. hideTimeout (run platform es s) = Some h \<longrightarrow> \<not> armed h (run platform es s)))"
proof (induction es arbitrary: s)
  case Nil
  then show ?case by simp
next
  case (Cons e es)
  show ?case
    using Cons.IH [OF step_focusable_stale [OF Cons.prems, of platform e]] by simp
qed

section \<open>Query failures\<close>






section \<open>The message to the renderer\<close>

text \<open>
  C2 (evaluation of the code at the scenario of the claim): the pointer query resolves
  to (512, 300) and the focused-window query to a window of class firefox. The one
  message sent is \<^verbatim>\<open>'show-menu'\<close> with the pointer object \<^verbatim>\<open>{x: 512, y: 300}\<close> as its
  payload, which is not the object \<^verbatim>\<open>{pointer: ..., focusedWindow: ...}\<close> of the claim:
  the window class goes to the console only.
\<close>

theorem C2_payload_is_the_pointer_alone:
  "sent (trace (run ''linux''
      [ShortcutPressed,
       PointerQuerySettled 0 (Inr (Pointer 512 300)),
       WindowQuerySettled 0 (Inr \<lparr> wmClass = ''firefox'' \<rparr>)] init_state)) =
     [(''show-menu'', JObj [(''x'', JNum 512), (''y'', JNum 300)])]
   \<and> JObj [(''x'', JNum 512), (''y'', JNum 300)] \<noteq>
     JObj [(''pointer'', JObj [(''x'', JNum 512), (''y'', JNum 300)]),
           (''focusedWindow'', JObj [(''wmClass'', JStr ''firefox'')])]
   \<and> ConsoleLog ''Currently focused window: firefox'' \<in> set (trace (run ''linux''
      [ShortcutPressed,
       PointerQuerySettled 0 (Inr (Pointer 512 300)),
       WindowQuerySettled 0 (Inr \<lparr> wmClass = ''firefox'' \<rparr>)] init_state))"
  by (simp add: app_defs init_state_def)


section \<open>The hide timer\<close>

text \<open>
  The handlers never read a clock. The delay of a hide request decides only when the
  runtime delivers the expiry of the timer, so "before the delay has elapsed" is "before
  \<open>TimerExpired\<close> of that handle is delivered", and "the timer elapses" is the delivery of
  that event.
\<close>

text \<open>
  C5 (as amended): a hide request with delay \<open>d\<close> that arrives while the overlay is
  shown and interactive makes the window unfocusable and click-through at once, keeps
  it shown, calls \<^verbatim>\<open>setTimeout\<close> with \<open>d\<close> and stores the handle, without hiding
  anything; the timer so armed runs for \<open>d\<close> milliseconds when \<open>d\<close> lies between 1 and
  2147483647, and for 1 millisecond otherwise; when that timer expires the window is
  hidden and the handle is set back to null, with the two input attributes as the
  request left them.
\<close>

theorem C5_request_hide_arms_clamped_timer:
  assumes "is_visible_interactive s"
  shows "is_visible_pending_hide (step platform (IpcHideWindow d) s)
     \<and> hideTimeout (step platform (IpcHideWindow d) s) = Some (nextTimer s)
     \<and> timers (step platform (IpcHideWindow d) s) =
         timers s @ [(nextTimer s, if 1 \<le> d \<and> d \<le> 2147483647 then d else 1)]
     \<and> trace (step platform (IpcHideWindow d) s) =
         trace s @ [SetFocusable False, SetIgnoreMouseEvents True, SetTimeout (nextTimer s) d]
     \<and> is_hidden (run platform [IpcHideWindow d, TimerExpired (nextTimer s)] s)
     \<and> hideTimeout (run platform [IpcHideWindow d, TimerExpired (nextTimer s)] s) = None
     \<and> \<not> armed (nextTimer s) (run platform [IpcHideWindow d, TimerExpired (nextTimer s)] s)
     \<and> \<not> focusable (run platform [IpcHideWindow d, TimerExpired (nextTimer s)] s)
     \<and> ignoreMouseEvents (run platform [IpcHideWindow d, TimerExpired (nextTimer s)] s)
     \<and> trace (run platform [IpcHideWindow d, TimerExpired (nextTimer s)] s) =
         trace (step platform (IpcHideWindow d) s) @ [WindowHide]"
  using assms by (auto simp: app_defs state_defs Let_def)

text \<open>The amended C5 at the scenario of the specification: the menu is shown, then a
  hide is requested with 300 ms, then the timer expires.\<close>

theorem C5_request_hide_arms_clamped_timer_witness:
  "is_visible_interactive (run ''linux''
      [ShortcutPressed,
       WindowQuerySettled 0 (Inr \<lparr> wmClass = ''firefox'' \<rparr>),
       PointerQuerySettled 0 (Inr (Pointer 512 300))] init_state)
   \<and> is_visible_pending_hide (step ''linux'' (IpcHideWindow 300) (run ''linux''
      [ShortcutPressed,
       WindowQuerySettled 0 (Inr \<lparr> wmClass = ''firefox'' \<rparr>),
       PointerQuerySettled 0 (Inr (Pointer 512 300))] init_state))
   \<and> timers (step ''linux'' (IpcHideWindow 300) (run ''linux''
      [ShortcutPressed,
       WindowQuerySettled 0 (Inr \<lparr> wmClass = ''firefox'' \<rparr>),
       PointerQuerySettled 0 (Inr (Pointer 512 300))] init_state)) = [(0, 300)]
   \<and> is_hidden (run ''linux'' [IpcHideWindow 300, TimerExpired 0] (run ''linux''
      [ShortcutPressed,
       WindowQuerySettled 0 (Inr \<lparr> wmClass = ''firefox'' \<rparr>),
       PointerQuerySettled 0 (Inr (Pointer 512 300))] init_state))
   \<and> hideTimeout (run ''linux'' [IpcHideWindow 300, TimerExpired 0] (run ''linux''
      [ShortcutPressed,
       WindowQuerySettled 0 (Inr \<lparr> wmClass = ''firefox'' \<rparr>),
       PointerQuerySettled 0 (Inr (Pointer 512 300))] init_state)) = None"
  using C5_request_hide_arms_clamped_timer
    [where s = "run ''linux''
      [ShortcutPressed,
       WindowQuerySettled 0 (Inr \<lparr> wmClass = ''firefox'' \<rparr>),
       PointerQuerySettled 0 (Inr (Pointer 512 300))] init_state"
       and platform = "''linux''" and d = 300]
  by (simp add: app_defs state_defs init_state_def)

text \<open>
  C5 as stated fails: on a shown menu, a hide request with a delay of 2147483648 ms
  arms a timer of 1 ms, not of 2147483648 ms, so the window is hidden as soon as that
  one millisecond has elapsed, long before the requested delay has.
\<close>

theorem C5_counterexample:
  "is_visible_interactive (run ''linux''
      [ShortcutPressed,
       WindowQuerySettled 0 (Inr \<lparr> wmClass = ''firefox'' \<rparr>),
       PointerQuerySettled 0 (Inr (Pointer 512 300))] init_state)
   \<and> timers (run ''linux''
      [ShortcutPressed,
       WindowQuerySettled 0 (Inr \<lparr> wmClass = ''firefox'' \<rparr>),
       PointerQuerySettled 0 (Inr (Pointer 512 300)),
       IpcHideWindow 2147483648] init_state) = [(0, 1)]
   \<and> (0, 2147483648) \<notin> set (timers (run ''linux''
      [ShortcutPressed,
       WindowQuerySettled 0 (Inr \<lparr> wmClass = ''firefox'' \<rparr>),
       PointerQuerySettled 0 (Inr (Pointer 512 300)),
       IpcHideWindow 2147483648] init_state))"
  by (simp add: app_defs state_defs init_state_def)

text \<open>
  C7: when no timer is armed under the handle (the handle is null, or it names a timer
  that is no longer armed), the cancellation at the head of the completion callback
  leaves the table of timers and the handle as they are, \<^verbatim>\<open>clearTimeout\<close> is called only
  if the handle is present, and the callback goes on to send the message and show the
  window: nothing but the regular calls enters the trace, no error line among them.
\<close>

theorem C7_cancel_without_armed_timer:
  assumes "\<not> hide_pending s"
  shows "timers (showMenu_then w p s) = timers s
     \<and> hideTimeout (showMenu_then w p s) = hideTimeout s
     \<and> trace (showMenu_then w p s) =
         trace s @ (case hideTimeout s of None \<Rightarrow> [] | Some h \<Rightarrow> [ClearTimeout h]) @
         [ConsoleLog (''Currently focused window: '' @ wmClass w),
          Send ''show-menu'' (pointer_js p),
          SetFocusable True, SetIgnoreMouseEvents False, WindowShow]
     \<and> is_visible_interactive (showMenu_then w p s)"
  using assms
  by (auto simp: app_defs state_defs hide_pending_def Let_def filter_id_conv split: option.splits)

text \<open>C7 on the first invocation after start, where the handle is still null.\<close>

theorem C7_cancel_without_armed_timer_witness:
  "\<not> hide_pending init_state
   \<and> timers (showMenu_then \<lparr> wmClass = ''firefox'' \<rparr> (Pointer 512 300) init_state) = []
   \<and> trace (showMenu_then \<lparr> wmClass = ''firefox'' \<rparr> (Pointer 512 300) init_state) =
       [ConsoleLog ''Currently focused window: firefox'',
        Send ''show-menu'' (JObj [(''x'', JNum 512), (''y'', JNum 300)]),
        SetFocusable True, SetIgnoreMouseEvents False, WindowShow]"
  using C7_cancel_without_armed_timer
    [where s = init_state and w = "\<lparr> wmClass = ''firefox'' \<rparr>" and p = "Pointer 512 300"]
  by (simp add: hide_pending_def init_state_def pointer_js_def)

text \<open>
  C4 (as amended): a hide request with any delay \<open>d\<close>, followed by an invocation whose
  two queries both resolve before the timer of the request expires, ends with the
  overlay shown and interactive and with that timer disarmed, so that its expiry can no
  longer hide anything; between the request and the end of the invocation the window is
  never hidden. The timer is disarmed in the completion callback, after both queries
  have resolved: when the shortcut has fired and the queries are issued it is still
  armed.
\<close>

theorem C4_hide_cancelled_when_queries_resolve:
  assumes "es = [WindowQuerySettled (length (invocations s)) (Inr w),
                 PointerQuerySettled (length (invocations s)) (Inr p)] \<or>
           es = [PointerQuerySettled (length (invocations s)) (Inr p),
                 WindowQuerySettled (length (invocations s)) (Inr w)]"
  shows "is_visible_interactive (run platform (IpcHideWindow d # ShortcutPressed # es) s)
     \<and> \<not> armed (nextTimer s) (run platform (IpcHideWindow d # ShortcutPressed # es) s)
     \<and> trace (run platform (IpcHideWindow d # ShortcutPressed # es) s) =
         trace s @
         [SetFocusable False, SetIgnoreMouseEvents True, SetTimeout (nextTimer s) d,
          GetFocusedWindow, GetPointer,
          ClearTimeout (nextTimer s),
          ConsoleLog (''Currently focused window: '' @ wmClass w),
          Send ''show-menu'' (pointer_js p),
          SetFocusable True, SetIgnoreMouseEvents False, WindowShow]
     \<and> armed (nextTimer s) (run platform [IpcHideWindow d, ShortcutPressed] s)
     \<and> step platform (TimerExpired (nextTimer s))
          (run platform (IpcHideWindow d # ShortcutPressed # es) s) =
        run platform (IpcHideWindow d # ShortcutPressed # es) s"
  using assms by (auto simp: app_defs state_defs Let_def nth_append)

text \<open>The amended C4 on a shown menu: hide requested with 300 ms, the shortcut fires and
  both queries resolve, the pointer first, before the timer expires.\<close>

theorem C4_hide_cancelled_when_queries_resolve_witness:
  "is_visible_interactive (run ''linux''
      [IpcHideWindow 300,
       ShortcutPressed,
       PointerQuerySettled 1 (Inr (Pointer 40 50)),
       WindowQuerySettled 1 (Inr \<lparr> wmClass = ''gedit'' \<rparr>)]
      (run ''linux''
        [ShortcutPressed,
         WindowQuerySettled 0 (Inr \<lparr> wmClass = ''firefox'' \<rparr>),
         PointerQuerySettled 0 (Inr (Pointer 512 300))] init_state))
   \<and> timers (run ''linux''
      [IpcHideWindow 300,
       ShortcutPressed,
       PointerQuerySettled 1 (Inr (Pointer 40 50)),
       WindowQuerySettled 1 (Inr \<lparr> wmClass = ''gedit'' \<rparr>)]
      (run ''linux''
        [ShortcutPressed,
         WindowQuerySettled 0 (Inr \<lparr> wmClass = ''firefox'' \<rparr>),
         PointerQuerySettled 0 (Inr (Pointer 512 300))] init_state)) = []"
  using C4_hide_cancelled_when_queries_resolve
    [where es = "[PointerQuerySettled 1 (Inr (Pointer 40 50)),
                  WindowQuerySettled 1 (Inr \<lparr> wmClass = ''gedit'' \<rparr>)]"
       and s = "run ''linux''
        [ShortcutPressed,
         WindowQuerySettled 0 (Inr \<lparr> wmClass = ''firefox'' \<rparr>),
         PointerQuerySettled 0 (Inr (Pointer 512 300))] init_state"
       and w = "\<lparr> wmClass = ''gedit'' \<rparr>" and p = "Pointer 40 50"
       and platform = "''linux''" and d = 300]
  by (simp add: app_defs state_defs init_state_def)

text \<open>
  C4 as stated fails: the menu is shown, a hide is requested with 300 ms and the
  shortcut fires before the timer expires. After the shortcut has fired and the queries
  are issued, the timer is still armed; when it expires before the queries have
  resolved, the window is hidden, and only then shown again.
\<close>

theorem C4_counterexample:
  "armed 0 (run ''linux''
      [ShortcutPressed,
       WindowQuerySettled 0 (Inr \<lparr> wmClass = ''firefox'' \<rparr>),
       PointerQuerySettled 0 (Inr (Pointer 512 300)),
       IpcHideWindow 300,
       ShortcutPressed] init_state)
   \<and> trace (run ''linux''
      [ShortcutPressed,
       WindowQuerySettled 0 (Inr \<lparr> wmClass = ''firefox'' \<rparr>),
       PointerQuerySettled 0 (Inr (Pointer 512 300)),
       IpcHideWindow 300,
       ShortcutPressed,
       TimerExpired 0,
       WindowQuerySettled 1 (Inr \<lparr> wmClass = ''firefox'' \<rparr>),
       PointerQuerySettled 1 (Inr (Pointer 512 300))] init_state) =
     [GetFocusedWindow, GetPointer,
      ConsoleLog ''Currently focused window: firefox'',
      Send ''show-menu'' (JObj [(''x'', JNum 512), (''y'', JNum 300)]),
      SetFocusable True, SetIgnoreMouseEvents False, WindowShow,
      SetFocusable False, SetIgnoreMouseEvents True, SetTimeout 0 300,
      GetFocusedWindow, GetPointer,
      WindowHide,
      ConsoleLog ''Currently focused window: firefox'',
      Send ''show-menu'' (JObj [(''x'', JNum 512), (''y'', JNum 300)]),
      SetFocusable True, SetIgnoreMouseEvents False, WindowShow]"
  by (simp add: app_defs init_state_def)

text \<open>
  C3 (as amended): after every sequence of events from the start, if the overlay is
  shown, unfocusable and click-through (\<open>Visible-PendingHide\<close>) then the timer handle is
  non-null and the timer it names is armed; and if the overlay is shown and interactive
  then no timer is armed under the handle.
\<close>

theorem C3_pending_hide_has_armed_handle:
  "(is_visible_pending_hide (run platform es init_state) \<longrightarrow>
      (\<exists>h. hideTimeout (run platform es init_state) = Some h
          \<and> armed h (run platform es init_state)))
   \<and> (is_visible_interactive (run platform es init_state) \<longrightarrow>
      \<not> hide_pending (run platform es init_state))"
proof -
  have a: "visible init_state \<and> \<not> focusable init_state \<longrightarrow>
        (\<exists>h. hideTimeout init_state = Some h \<and> armed h init_state)"
    by (simp add: init_state_def)
  have b: "focusable init_state \<longrightarrow>
        (\<forall>h. hideTimeout init_state = Some h \<longrightarrow> \<not> armed h init_state)"
    by (simp add: init_state_def)
  from run_pending_armed [OF a, of platform es] run_focusable_stale [OF b, of platform es]
  show ?thesis
    by (auto simp: state_defs hide_pending_def split: option.splits)
qed

text \<open>The amended C3 at a pending hide (menu shown, hide requested) and at an
  interactive overlay (the same, followed by a second invocation that resolves).\<close>

theorem C3_pending_hide_has_armed_handle_witness:
  "is_visible_pending_hide (run ''linux''
      [ShortcutPressed,
       WindowQuerySettled 0 (Inr \<lparr> wmClass = ''firefox'' \<rparr>),
       PointerQuerySettled 0 (Inr (Pointer 512 300)),
       IpcHideWindow 300] init_state)
   \<and> hide_pending (run ''linux''
      [ShortcutPressed,
       WindowQuerySettled 0 (Inr \<lparr> wmClass = ''firefox'' \<rparr>),
       PointerQuerySettled 0 (Inr (Pointer 512 300)),
       IpcHideWindow 300] init_state)
   \<and> is_visible_interactive (run ''linux''
      [ShortcutPressed,
       WindowQuerySettled 0 (Inr \<lparr> wmClass = ''firefox'' \<rparr>),
       PointerQuerySettled 0 (Inr (Pointer 512 300)),
       IpcHideWindow 300,
       ShortcutPressed,
       WindowQuerySettled 1 (Inr \<lparr> wmClass = ''firefox'' \<rparr>),
       PointerQuerySettled 1 (Inr (Pointer 512 300))] init_state)
   \<and> \<not> hide_pending (run ''linux''
      [ShortcutPressed,
       WindowQuerySettled 0 (Inr \<lparr> wmClass = ''firefox'' \<rparr>),
       PointerQuerySettled 0 (Inr (Pointer 512 300)),
       IpcHideWindow 300,
       ShortcutPressed,
       WindowQuerySettled 1 (Inr \<lparr> wmClass = ''firefox'' \<rparr>),
       PointerQuerySettled 1 (Inr (Pointer 512 300))] init_state)"
  using C3_pending_hide_has_armed_handle
    [where platform = "''linux''" and es = "[ShortcutPressed,
       WindowQuerySettled 0 (Inr \<lparr> wmClass = ''firefox'' \<rparr>),
       PointerQuerySettled 0 (Inr (Pointer 512 300)),
       IpcHideWindow 300]"]
    C3_pending_hide_has_armed_handle
    [where platform = "''linux''" and es = "[ShortcutPressed,
       WindowQuerySettled 0 (Inr \<lparr> wmClass = ''firefox'' \<rparr>),
       PointerQuerySettled 0 (Inr (Pointer 512 300)),
       IpcHideWindow 300,
       ShortcutPressed,
       WindowQuerySettled 1 (Inr \<lparr> wmClass = ''firefox'' \<rparr>),
       PointerQuerySettled 1 (Inr (Pointer 512 300))]"]
  by (simp add: app_defs state_defs hide_pending_def init_state_def)

text \<open>
  C3 as stated fails: a hide request that arrives while the overlay is hidden arms a
  timer and stores its handle, so the handle is non-null in the state \<open>Hidden\<close>.
\<close>

theorem C3_counterexample:
  "\<not> spec_timer_iff_pending_hide (run ''linux'' [IpcHideWindow 300] init_state)
   \<and> is_hidden (run ''linux'' [IpcHideWindow 300] init_state)
   \<and> hideTimeout (run ''linux'' [IpcHideWindow 300] init_state) = Some 0
   \<and> armed 0 (run ''linux'' [IpcHideWindow 300] init_state)"
  by (simp add: app_defs state_defs spec_timer_iff_pending_hide_def init_state_def)

text \<open>
  The completion callback disarms the timer of the handle and leaves the handle in the
  field: after a hide request that a new invocation preempts, the overlay is shown and
  interactive and the field still holds the handle of the disarmed timer.
\<close>

lemma handle_kept_after_preempted_hide:
  "is_visible_interactive (run ''linux''
      [ShortcutPressed,
       WindowQuerySettled 0 (Inr \<lparr> wmClass = ''firefox'' \<rparr>),
       PointerQuerySettled 0 (Inr (Pointer 512 300)),
       IpcHideWindow 300,
       ShortcutPressed,
       WindowQuerySettled 1 (Inr \<lparr> wmClass = ''firefox'' \<rparr>),
       PointerQuerySettled 1 (Inr (Pointer 512 300))] init_state)
   \<and> hideTimeout (run ''linux''
      [ShortcutPressed,
       WindowQuerySettled 0 (Inr \<lparr> wmClass = ''firefox'' \<rparr>),
       PointerQuerySettled 0 (Inr (Pointer 512 300)),
       IpcHideWindow 300,
       ShortcutPressed,
       WindowQuerySettled 1 (Inr \<lparr> wmClass = ''firefox'' \<rparr>),
       PointerQuerySettled 1 (Inr (Pointer 512 300))] init_state) = Some 0"
  by (simp add: app_defs state_defs init_state_def)

section \<open>Focus and input pass-through\<close>

text \<open>
  C6: after every sequence of events from the start the window ignores mouse events
  exactly when it is not focusable, so it is never focusable and click-through at once
  and never unfocusable while it accepts clicks; whenever the next event changes the
  focusable attribute, it changes the mouse handling in the same step; and a handler
  that changes the focusable attribute, run from any state at all, leaves the mouse
  handling set to the opposite value.
\<close>

theorem C6_focusable_and_passthrough_in_lockstep:
  "ignoreMouseEvents (run platform es init_state) = (\<not> focusable (run platform es init_state))
   \<and> (focusable (step platform e (run platform es init_state)) \<noteq>
        focusable (run platform es init_state) \<longrightarrow>
      ignoreMouseEvents (step platform e (run platform es init_state)) \<noteq>
        ignoreMouseEvents (run platform es init_state))
   \<and> (focusable (step platform e s) \<noteq> focusable s \<longrightarrow>
      ignoreMouseEvents (step platform e s) = (\<not> focusable (step platform e s)))"
proof -
  have i: "ignoreMouseEvents init_state = (\<not> focusable init_state)"
    by (simp add: init_state_def)
  have a: "ignoreMouseEvents (run platform es init_state) =
      (\<not> focusable (run platform es init_state))"
    using i by (rule run_lockstep)
  have b: "ignoreMouseEvents (step platform e (run platform es init_state)) =
      (\<not> focusable (step platform e (run platform es init_state)))"
    using a by (rule step_lockstep)
  have c: "focusable (step platform e s) \<noteq> focusable s \<longrightarrow>
      ignoreMouseEvents (step platform e s) = (\<not> focusable (step platform e s))"
    by (rule step_sets_pair)
  from a b c show ?thesis by simp
qed

text \<open>C6 at a hide request on a shown menu: the request turns focusable off and the
  pass-through on in one step.\<close>

theorem C6_focusable_and_passthrough_in_lockstep_witness:
  "focusable (step ''linux'' (IpcHideWindow 300) (run ''linux''
      [ShortcutPressed,
       WindowQuerySettled 0 (Inr \<lparr> wmClass = ''firefox'' \<rparr>),
       PointerQuerySettled 0 (Inr (Pointer 512 300))] init_state)) \<noteq>
   focusable (run ''linux''
      [ShortcutPressed,
       WindowQuerySettled 0 (Inr \<lparr> wmClass = ''firefox'' \<rparr>),
       PointerQuerySettled 0 (Inr (Pointer 512 300))] init_state)
   \<and> ignoreMouseEvents (step ''linux'' (IpcHideWindow 300) (run ''linux''
      [ShortcutPressed,
       WindowQuerySettled 0 (Inr \<lparr> wmClass = ''firefox'' \<rparr>),
       PointerQuerySettled 0 (Inr (Pointer 512 300))] init_state)) \<noteq>
   ignoreMouseEvents (run ''linux''
      [ShortcutPressed,
       WindowQuerySettled 0 (Inr \<lparr> wmClass = ''firefox'' \<rparr>),
       PointerQuerySettled 0 (Inr (Pointer 512 300))] init_state)"
  using C6_focusable_and_passthrough_in_lockstep
    [where platform = "''linux''" and e = "IpcHideWindow 300" and es = "[ShortcutPressed,
       WindowQuerySettled 0 (Inr \<lparr> wmClass = ''firefox'' \<rparr>),
       PointerQuerySettled 0 (Inr (Pointer 512 300))]" and s = init_state]
  by (simp add: app_defs init_state_def)

section \<open>Simulated shortcuts\<close>

text \<open>
  C9 (as amended): on every \<^verbatim>\<open>'simulate-shortcut'\<close> message the window is hidden first
  and then the backend's \<^verbatim>\<open>simulateShortcut\<close> is called with a combination fixed by the
  platform, \<^verbatim>\<open>Ctrl+Alt+Tab\<close> on win32 and \<^verbatim>\<open>Ctrl+Alt+Right\<close> elsewhere, whatever the
  message carries.
\<close>

theorem C9_hide_then_platform_combo:
  "trace (step platform (IpcSimulateShortcut targetCombo) s) =
     trace s @ [WindowHide,
       SimulateShortcut (if platform = ''win32'' then ''Ctrl+Alt+Tab'' else ''Ctrl+Alt+Right'')]
   \<and> is_hidden (step platform (IpcSimulateShortcut targetCombo) s)"
  by (simp add: app_defs state_defs Let_def)

text \<open>
  C9 as stated fails: a message that names \<^verbatim>\<open>Alt+Tab\<close> makes the backend simulate
  \<^verbatim>\<open>Ctrl+Alt+Right\<close> on Linux; the combination named by the message is never simulated.
\<close>

theorem C9_counterexample:
  "trace (run ''linux'' [IpcSimulateShortcut ''Alt+Tab''] init_state) =
     [WindowHide, SimulateShortcut ''Ctrl+Alt+Right'']
   \<and> SimulateShortcut ''Alt+Tab'' \<notin>
       set (trace (run ''linux'' [IpcSimulateShortcut ''Alt+Tab''] init_state))"
  by (simp add: app_defs init_state_def)

end
